theory Spec2Isabelle
  imports Complex_Main "HOL-Library.Sublist" "HOL-Library.Multiset"
    "HOL-Library.Char_ord" "HOL-Library.List_Lexorder"
begin

section \<open>Python values and exceptions\<close>

text \<open>
  The four tools of \<^verbatim>\<open>src/tools/youtube_analyzer\<close> work on the dictionaries that
  \<^verbatim>\<open>googleapiclient\<close> parses from the provider's JSON answers. A response is therefore
  a value of \<open>json\<close>; a dictionary is an association list with distinct keys, read with
  \<open>map_of\<close>. Strings are byte strings: \<open>lower\<close> and \<open>split\<close> are modelled on ASCII.
  JSON numbers are integers (the provider sends no fractions in the fields the tools read).
  The \<^verbatim>\<open>print\<close> calls that log the responses are left out.
\<close>

datatype json =
    JNull
  | JBool bool
  | JInt int
  | JStr string
  | JList "json list"
  | JDict "(string \<times> json) list"

text \<open>
  Exceptions are values. Every constructor is a subclass of Python's \<^verbatim>\<open>Exception\<close>;
  the string is what \<^verbatim>\<open>str(e)\<close> returns. \<open>HttpError\<close> stands for whatever
  the API client raises (transport or API failure).
\<close>

datatype exn_class =
  KeyError | IndexError | TypeError | ValueError | AttributeError | ZeroDivisionError | HttpError

datatype exn = Exn exn_class string

fun str_exn :: "exn \<Rightarrow> string" where
  "str_exn (Exn c msg) = msg"

fun exn_class_of :: "exn \<Rightarrow> exn_class" where
  "exn_class_of (Exn c msg) = c"

definition zero_division :: exn where
  "zero_division = Exn ZeroDivisionError ''division by zero''"

definition key_error :: "string \<Rightarrow> exn" where
  "key_error k = Exn KeyError ([CHR 0x27] @ k @ [CHR 0x27])"

fun type_name :: "json \<Rightarrow> string" where
  "type_name JNull = ''NoneType''"
| "type_name (JBool b) = ''bool''"
| "type_name (JInt n) = ''int''"
| "type_name (JStr s) = ''str''"
| "type_name (JList xs) = ''list''"
| "type_name (JDict kvs) = ''dict''"

definition quoted :: "string \<Rightarrow> string" where
  "quoted s = [CHR 0x27] @ s @ [CHR 0x27]"

definition not_subscriptable :: "json \<Rightarrow> exn" where
  "not_subscriptable v = Exn TypeError (quoted (type_name v) @ '' object is not subscriptable'')"

definition no_attribute :: "json \<Rightarrow> string \<Rightarrow> exn" where
  "no_attribute v a =
     Exn AttributeError (quoted (type_name v) @ '' object has no attribute '' @ quoted a)"

definition not_iterable :: "json \<Rightarrow> exn" where
  "not_iterable v = Exn TypeError (quoted (type_name v) @ '' object is not iterable'')"

text \<open>Sequencing of fallible steps: the first exception ends the computation.\<close>

definition bnd :: "exn + 'a \<Rightarrow> ('a \<Rightarrow> exn + 'b) \<Rightarrow> exn + 'b" where
  "bnd m f = (case m of Inl e \<Rightarrow> Inl e | Inr x \<Rightarrow> f x)"

text \<open>\<^verbatim>\<open>[f(x) for x in xs]\<close> and the body of a \<^verbatim>\<open>for\<close> loop that appends one
  record per element: elements are processed left to right, the first exception ends the loop.\<close>

fun map_exn :: "('a \<Rightarrow> exn + 'b) \<Rightarrow> 'a list \<Rightarrow> exn + 'b list" where
  "map_exn f [] = Inr []"
| "map_exn f (x # xs) =
     (case f x of
        Inl e \<Rightarrow> Inl e
      | Inr y \<Rightarrow> (case map_exn f xs of Inl e \<Rightarrow> Inl e | Inr ys \<Rightarrow> Inr (y # ys)))"

subsection \<open>Dictionary and list access\<close>

text \<open>\<^verbatim>\<open>d[k]\<close> with a string key.\<close>

fun getitem :: "json \<Rightarrow> string \<Rightarrow> exn + json" where
  "getitem (JDict kvs) k = (case map_of kvs k of None \<Rightarrow> Inl (key_error k) | Some v \<Rightarrow> Inr v)"
| "getitem (JList xs) k =
     Inl (Exn TypeError ''list indices must be integers or slices, not str'')"
| "getitem (JStr s) k = Inl (Exn TypeError (''string indices must be integers, not '' @ quoted ''str''))"
| "getitem v k = Inl (not_subscriptable v)"

text \<open>\<^verbatim>\<open>d[0]\<close>.\<close>

fun getitem0 :: "json \<Rightarrow> exn + json" where
  "getitem0 (JList xs) =
     (case xs of [] \<Rightarrow> Inl (Exn IndexError ''list index out of range'') | x # _ \<Rightarrow> Inr x)"
| "getitem0 (JStr s) =
     (case s of [] \<Rightarrow> Inl (Exn IndexError ''string index out of range'')
      | c # _ \<Rightarrow> Inr (JStr [c]))"
| "getitem0 (JDict kvs) = Inl (Exn KeyError ''0'')"
| "getitem0 v = Inl (not_subscriptable v)"

text \<open>\<^verbatim>\<open>d.get(k, default)\<close>: only dictionaries have the method.\<close>

fun py_get :: "json \<Rightarrow> string \<Rightarrow> json \<Rightarrow> exn + json" where
  "py_get (JDict kvs) k d = (case map_of kvs k of None \<Rightarrow> Inr d | Some v \<Rightarrow> Inr v)"
| "py_get v k d = Inl (no_attribute v ''get'')"

text \<open>Truth value of an object (\<^verbatim>\<open>if x\<close>, \<^verbatim>\<open>not x\<close>).\<close>

fun truthy :: "json \<Rightarrow> bool" where
  "truthy JNull = False"
| "truthy (JBool b) = b"
| "truthy (JInt n) = (n \<noteq> 0)"
| "truthy (JStr s) = (s \<noteq> [])"
| "truthy (JList xs) = (xs \<noteq> [])"
| "truthy (JDict kvs) = (kvs \<noteq> [])"

text \<open>\<^verbatim>\<open>t in s\<close> on strings: \<open>t\<close> occurs as a contiguous piece of \<open>s\<close>.\<close>

fun py_in_str :: "string \<Rightarrow> string \<Rightarrow> bool" where
  "py_in_str t [] = (t = [])"
| "py_in_str t (c # cs) = (prefix t (c # cs) \<or> py_in_str t cs)"

text \<open>\<^verbatim>\<open>k in x\<close> for a string \<open>k\<close>.\<close>

fun py_contains :: "string \<Rightarrow> json \<Rightarrow> exn + bool" where
  "py_contains k (JDict kvs) = Inr (k \<in> set (map fst kvs))"
| "py_contains k (JList xs) = Inr (JStr k \<in> set xs)"
| "py_contains k (JStr s) = Inr (py_in_str k s)"
| "py_contains k v =
     Inl (Exn TypeError (''argument of type '' @ quoted (type_name v) @ '' is not iterable''))"

text \<open>The elements a \<^verbatim>\<open>for\<close> loop or a comprehension visits.\<close>

fun py_iter :: "json \<Rightarrow> exn + json list" where
  "py_iter (JList xs) = Inr xs"
| "py_iter (JDict kvs) = Inr (map (\<lambda>kv. JStr (fst kv)) kvs)"
| "py_iter (JStr s) = Inr (map (\<lambda>c. JStr [c]) s)"
| "py_iter v = Inl (not_iterable v)"

text \<open>\<^verbatim>\<open>x == 0\<close>: \<^verbatim>\<open>False == 0\<close> holds in Python.\<close>

fun py_eq_zero :: "json \<Rightarrow> bool" where
  "py_eq_zero (JInt n) = (n = 0)"
| "py_eq_zero (JBool b) = (\<not> b)"
| "py_eq_zero v = False"

subsection \<open>Strings\<close>

definition is_space :: "char \<Rightarrow> bool" where
  "is_space c = (c \<in> set [CHR 0x09, CHR 0x0A, CHR 0x0B, CHR 0x0C, CHR 0x0D,
                          CHR 0x1C, CHR 0x1D, CHR 0x1E, CHR 0x1F, CHR 0x20])"

definition lower_char :: "char \<Rightarrow> char" where
  "lower_char c =
     (if (65::nat) \<le> of_char c \<and> of_char c \<le> (90::nat)
      then char_of (of_char c + (32::nat)) else c)"

definition lower :: "string \<Rightarrow> string" where
  "lower s = map lower_char s"

text \<open>\<^verbatim>\<open>s.split()\<close>: the maximal runs of non-whitespace characters, in order.
  \<open>cur\<close> is the run being read.\<close>

fun split_acc :: "string \<Rightarrow> string \<Rightarrow> string list" where
  "split_acc cur [] = (if cur = [] then [] else [cur])"
| "split_acc cur (c # cs) =
     (if is_space c then (if cur = [] then split_acc [] cs else cur # split_acc [] cs)
      else split_acc (cur @ [c]) cs)"

definition split :: "string \<Rightarrow> string list" where
  "split s = split_acc [] s"

text \<open>\<^verbatim>\<open>x.lower()\<close> on a response value: only \<^verbatim>\<open>str\<close> has the method.\<close>

fun py_lower :: "json \<Rightarrow> exn + string" where
  "py_lower (JStr s) = Inr (lower s)"
| "py_lower v = Inl (no_attribute v ''lower'')"

text \<open>\<^verbatim>\<open>','.join(xs)\<close>: every element must be a \<^verbatim>\<open>str\<close>.\<close>

fun join_strs :: "string list \<Rightarrow> string" where
  "join_strs [] = []"
| "join_strs [s] = s"
| "join_strs (s # t # ts) = s @ '','' @ join_strs (t # ts)"

fun as_str :: "json \<Rightarrow> exn + string" where
  "as_str (JStr s) = Inr s"
| "as_str v =
     Inl (Exn TypeError (''sequence item: expected str instance, '' @ type_name v @ '' found''))"

definition py_join :: "json list \<Rightarrow> exn + string" where
  "py_join xs = bnd (map_exn as_str xs) (\<lambda>ss. Inr (join_strs ss))"

subsection \<open>\<^verbatim>\<open>int(x)\<close>\<close>

definition is_digit :: "char \<Rightarrow> bool" where
  "is_digit c = ((48::nat) \<le> of_char c \<and> of_char c \<le> (57::nat))"

definition digit_val :: "char \<Rightarrow> int" where
  "digit_val c = int (of_char c) - 48"

text \<open>Digits with single underscores between them, as \<^verbatim>\<open>int\<close> accepts them; the
  accumulator is the value read so far, \<open>prev\<close> tells whether the last character was a digit.\<close>

fun digits_val :: "int \<Rightarrow> bool \<Rightarrow> string \<Rightarrow> int option" where
  "digits_val acc prev [] = (if prev then Some acc else None)"
| "digits_val acc prev (c # cs) =
     (if is_digit c then digits_val (10 * acc + digit_val c) True cs
      else if c = CHR ''_'' \<and> prev then digits_val acc False cs
      else None)"

definition strip :: "string \<Rightarrow> string" where
  "strip s = rev (dropWhile is_space (rev (dropWhile is_space s)))"

definition int_of_string :: "string \<Rightarrow> int option" where
  "int_of_string s =
     (case strip s of
        [] \<Rightarrow> None
      | c # cs \<Rightarrow>
          if c = CHR ''-'' then map_option uminus (digits_val 0 False cs)
          else if c = CHR ''+'' then digits_val 0 False cs
          else digits_val 0 False (c # cs))"

fun py_int :: "json \<Rightarrow> exn + int" where
  "py_int (JInt n) = Inr n"
| "py_int (JBool b) = Inr (if b then 1 else 0)"
| "py_int (JStr s) =
     (case int_of_string s of
        None \<Rightarrow> Inl (Exn ValueError (''invalid literal for int() with base 10: '' @ quoted s))
      | Some n \<Rightarrow> Inr n)"
| "py_int v =
     Inl (Exn TypeError
       (''int() argument must be a string, a bytes-like object or a real number, not ''
        @ quoted (type_name v)))"

text \<open>\<^verbatim>\<open>x[:200] + "..." if len(x) > 200 else x\<close> on a string.\<close>

definition truncate200 :: "string \<Rightarrow> string" where
  "truncate200 s = (if length s > 200 then take 200 s @ ''...'' else s)"

section \<open>The Scorer of CompetitorSearchTool\<close>

text \<open>
  Lines 65 to 72 of \<^verbatim>\<open>CompetitorSearchTool.run\<close>. \<^verbatim>\<open>sum\<close> adds one for every
  term that is found; the true division raises on an empty term list. The quotient is kept
  exact (Python returns the double nearest to it).
\<close>

definition term_hits :: "string list \<Rightarrow> string \<Rightarrow> string \<Rightarrow> nat" where
  "term_hits terms keywords description =
     sum_list (map (\<lambda>t. if py_in_str t keywords \<or> py_in_str t description then 1 else 0) terms)"

definition true_div :: "int \<Rightarrow> nat \<Rightarrow> exn + rat" where
  "true_div a n = (if n = 0 then Inl zero_division else Inr (of_int a / of_nat n))"

text \<open>Lines 65 and 66: the two lowercased text fields of a channel.\<close>

definition channel_fields :: "json \<Rightarrow> exn + string \<times> string" where
  "channel_fields channel =
     bnd (getitem channel ''brandingSettings'') (\<lambda>bs.
     bnd (py_get bs ''channel'' (JDict [])) (\<lambda>ch.
     bnd (py_get ch ''keywords'' (JStr [])) (\<lambda>kw.
     bnd (py_lower kw) (\<lambda>keywords.
     bnd (getitem channel ''snippet'') (\<lambda>sn.
     bnd (getitem sn ''description'') (\<lambda>d.
     bnd (py_lower d) (\<lambda>description.
       Inr (keywords, description))))))))"

definition channel_relevance :: "string \<Rightarrow> json \<Rightarrow> exn + rat" where
  "channel_relevance search_query channel =
     bnd (channel_fields channel) (\<lambda>(keywords, description).
       let search_terms = split (lower search_query)
       in true_div (int (term_hits search_terms keywords description))
            (length search_terms))"

section \<open>The provider and the trace of requests\<close>

text \<open>
  The API client is a collaborator: each operation is a function from the request (with the
  developer key the client was built with) to an answer or an exception, so the same request
  gets the same answer. \<open>build\<close> makes the
  client and may raise; the other operations are the \<^verbatim>\<open>.list(...).execute()\<close> requests.
  \<open>oauth_build\<close> is the pair of calls \<^verbatim>\<open>Credentials.from_authorized_user_info\<close> and
  \<^verbatim>\<open>build(credentials=...)\<close> of ChannelDemographicsTool.
\<close>

record api =
  build :: "string option \<Rightarrow> exn option"
  search_list :: "string option \<Rightarrow> string \<Rightarrow> int \<Rightarrow> exn + json"
  channels_list :: "string option \<Rightarrow> string \<Rightarrow> string \<Rightarrow> exn + json"
  playlistItems_list :: "string option \<Rightarrow> json \<Rightarrow> int \<Rightarrow> json \<Rightarrow> exn + json"
  videos_list :: "string option \<Rightarrow> string \<Rightarrow> string \<Rightarrow> exn + json"
  commentThreads_list :: "string option \<Rightarrow> string \<Rightarrow> exn + json"
  oauth_build :: "string \<Rightarrow> exn option"

text \<open>What a run asked of the provider, in order.\<close>

datatype request =
    Build "string option"
  | SearchList string int
  | ChannelsList string string
  | PlaylistItemsList json int json
  | VideosList string string
  | CommentThreadsList string
  | OAuthBuild string

type_synonym 'a io = "request list \<Rightarrow> (exn + 'a) \<times> request list"

definition io_ret :: "'a \<Rightarrow> 'a io" where
  "io_ret x = (\<lambda>tr. (Inr x, tr))"

definition io_lift :: "exn + 'a \<Rightarrow> 'a io" where
  "io_lift r = (\<lambda>tr. (r, tr))"

definition io_call :: "request \<Rightarrow> exn + 'a \<Rightarrow> 'a io" where
  "io_call rq r = (\<lambda>tr. (r, tr @ [rq]))"

definition io_bind :: "'a io \<Rightarrow> ('a \<Rightarrow> 'b io) \<Rightarrow> 'b io" where
  "io_bind m f = (\<lambda>tr. case m tr of (Inl e, tr') \<Rightarrow> (Inl e, tr') | (Inr x, tr') \<Rightarrow> f x tr')"

text \<open>
  \<^verbatim>\<open>try: ... except Exception as e: return f"<label>{str(e)}"\<close> around a whole body:
  an exception that leaves the body becomes the returned error string. A result \<open>Inl e\<close>
  of a run would be an exception that reaches the caller.
\<close>

definition except_exception ::
  "string \<Rightarrow> (exn + string) \<times> request list \<Rightarrow> (exn + string) \<times> request list" where
  "except_exception label out =
     (case out of
        (Inl e, tr) \<Rightarrow> (Inr (label @ str_exn e), tr)
      | (Inr s, tr) \<Rightarrow> (Inr s, tr))"

definition do_build :: "api \<Rightarrow> string option \<Rightarrow> unit io" where
  "do_build a key =
     io_call (Build key) (case build a key of Some e \<Rightarrow> Inl e | None \<Rightarrow> Inr ())"

section \<open>The Ranker: \<^verbatim>\<open>list.sort(key=..., reverse=True)\<close>\<close>

text \<open>
  Python's list sort is stable, also with \<^verbatim>\<open>reverse=True\<close>: an element stays in front
  of the later elements whose key is not larger.
\<close>

fun insort_desc :: "('a \<Rightarrow> 'k::linorder) \<Rightarrow> 'a \<Rightarrow> 'a list \<Rightarrow> 'a list" where
  "insort_desc key x [] = [x]"
| "insort_desc key x (y # ys) =
     (if key y \<le> key x then x # y # ys else y # insort_desc key x ys)"

fun ranker :: "('a \<Rightarrow> 'k::linorder) \<Rightarrow> 'a list \<Rightarrow> 'a list" where
  "ranker key [] = []"
| "ranker key (x # xs) = insort_desc key x (ranker key xs)"

section \<open>CompetitorSearchTool\<close>

record competitor =
  channel_name :: json
  channel_id :: json
  description :: json
  subscriber_count :: int
  video_count :: int
  view_count :: int
  country :: json
  created_date :: json
  topics :: json
  relevance_score :: rat

text \<open>\<^verbatim>\<open>x[:200] + "..." if len(x) > 200 else x\<close> on a response value.\<close>

fun py_truncate200 :: "json \<Rightarrow> exn + json" where
  "py_truncate200 (JStr s) = Inr (JStr (truncate200 s))"
| "py_truncate200 (JList xs) =
     (if length xs > 200
      then Inl (Exn TypeError (''can only concatenate list (not '' @ [CHR 0x22] @ ''str''
             @ [CHR 0x22] @ '') to list''))
      else Inr (JList xs))"
| "py_truncate200 (JDict kvs) =
     (if length kvs > 200 then Inl (Exn TypeError ''unhashable type: slice'')
      else Inr (JDict kvs))"
| "py_truncate200 v =
     Inl (Exn TypeError (''object of type '' @ quoted (type_name v) @ '' has no len()''))"

text \<open>\<^verbatim>\<open>int(d['statistics'].get(k, 0))\<close>.\<close>

definition stat_int :: "json \<Rightarrow> string \<Rightarrow> exn + int" where
  "stat_int d k =
     bnd (getitem d ''statistics'') (\<lambda>st. bnd (py_get st k (JInt 0)) py_int)"

text \<open>The dictionary display of lines 75 to 89; the \<^verbatim>\<open>url\<close> entry repeats
  \<^verbatim>\<open>channel['id']\<close> and is left to the renderer.\<close>

definition competitor_data :: "rat \<Rightarrow> json \<Rightarrow> exn + competitor" where
  "competitor_data score channel =
     bnd (getitem channel ''snippet'') (\<lambda>sn.
     bnd (getitem sn ''title'') (\<lambda>title.
     bnd (getitem channel ''id'') (\<lambda>cid.
     bnd (getitem sn ''description'') (\<lambda>d.
     bnd (py_truncate200 d) (\<lambda>descr.
     bnd (stat_int channel ''subscriberCount'') (\<lambda>subs.
     bnd (stat_int channel ''videoCount'') (\<lambda>vids.
     bnd (stat_int channel ''viewCount'') (\<lambda>views.
     bnd (py_get sn ''country'' (JStr ''Not specified'')) (\<lambda>ctry.
     bnd (getitem sn ''publishedAt'') (\<lambda>created.
     bnd (py_get channel ''topicDetails'' (JDict [])) (\<lambda>td.
     bnd (py_get td ''topicCategories'' (JList [])) (\<lambda>tps.
       Inr \<lparr> channel_name = title, channel_id = cid, description = descr,
             subscriber_count = subs, video_count = vids, view_count = views,
             country = ctry, created_date = created, topics = tps,
             relevance_score = score \<rparr>))))))))))))"

text \<open>The Enricher and Scorer/Filter loop, lines 63 to 90: one channel of the batch answer
  after the other, in the answer's order; a channel is kept when its score reaches the
  threshold.\<close>

fun collect_competitors :: "string \<Rightarrow> rat \<Rightarrow> json list \<Rightarrow> exn + competitor list" where
  "collect_competitors q thr [] = Inr []"
| "collect_competitors q thr (channel # rest) =
     bnd (channel_relevance q channel) (\<lambda>score.
       if score \<ge> thr
       then bnd (competitor_data score channel) (\<lambda>c.
            bnd (collect_competitors q thr rest) (\<lambda>cs. Inr (c # cs)))
       else collect_competitors q thr rest)"

text \<open>The Summarizer, lines 116 and 117.\<close>

definition avg_subs :: "competitor list \<Rightarrow> exn + rat" where
  "avg_subs cs = true_div (sum_list (map subscriber_count cs)) (length cs)"

definition avg_views :: "competitor list \<Rightarrow> exn + rat" where
  "avg_views cs = true_div (sum_list (map view_count cs)) (length cs)"

text \<open>
  The f-string rendering of one report entry (which may raise, on \<^verbatim>\<open>topics\<close>) and of
  the summary numbers belongs to the report formatter; both are parameters.
\<close>

record competitor_renderer =
  render_entry :: "nat \<Rightarrow> competitor \<Rightarrow> exn + string"
  render_summary :: "rat \<Rightarrow> rat \<Rightarrow> nat \<Rightarrow> string"

fun render_entries :: "(nat \<Rightarrow> 'a \<Rightarrow> exn + string) \<Rightarrow> nat \<Rightarrow> 'a list \<Rightarrow> exn + string" where
  "render_entries f i [] = Inr []"
| "render_entries f i (c # cs) =
     bnd (f i c) (\<lambda>s. bnd (render_entries f (Suc i) cs) (\<lambda>rest. Inr (s @ rest)))"

definition competitor_header :: "string \<Rightarrow> string" where
  "competitor_header q =
     ''Competitor Analysis Report for '' @ quoted q @ [CHR 0x0A]
     @ replicate 60 (CHR ''='') @ [CHR 0x0A, CHR 0x0A]"

text \<open>Lines 61 to 93: the records the Enricher and the Scorer/Filter produce from the batch
  answer, and the ranked records.\<close>

definition enriched_competitors :: "string \<Rightarrow> rat \<Rightarrow> json \<Rightarrow> exn + competitor list" where
  "enriched_competitors q thr channels_response =
     bnd (getitem channels_response ''items'') (\<lambda>its.
     bnd (py_iter its) (collect_competitors q thr))"

definition final_competitors :: "string \<Rightarrow> rat \<Rightarrow> json \<Rightarrow> exn + competitor list" where
  "final_competitors q thr channels_response =
     bnd (enriched_competitors q thr channels_response) (\<lambda>collected.
       Inr (ranker subscriber_count collected))"

text \<open>Lines 61 to 124: from the batch answer to the report.\<close>

definition competitor_report ::
  "competitor_renderer \<Rightarrow> string \<Rightarrow> rat \<Rightarrow> json \<Rightarrow> exn + string" where
  "competitor_report fmt q thr channels_response =
     bnd (final_competitors q thr channels_response) (\<lambda>competitors.
     bnd (render_entries (render_entry fmt) 1 competitors) (\<lambda>entries.
     bnd (avg_subs competitors) (\<lambda>a_subs.
     bnd (avg_views competitors) (\<lambda>a_views.
       Inr (competitor_header q @ entries
            @ render_summary fmt a_subs a_views (length competitors))))))"

definition channel_ids_of :: "json \<Rightarrow> exn + json list" where
  "channel_ids_of items =
     bnd (py_iter items)
       (map_exn (\<lambda>item. bnd (getitem item ''snippet'') (\<lambda>sn. getitem sn ''channelId'')))"

definition competitor_part :: string where
  "competitor_part = ''snippet,statistics,brandingSettings,topicDetails''"

text \<open>Lines 52 to 58: the identifiers of the channels found, joined for the batch request.\<close>

definition search_ids :: "json \<Rightarrow> exn + string" where
  "search_ids search_response =
     bnd (getitem search_response ''items'') (\<lambda>its.
     bnd (channel_ids_of its) py_join)"

text \<open>Lines 38 to 59: the search and the batch lookup. The result is the early return value
  (\<open>Inl\<close>) or the batch answer (\<open>Inr\<close>).\<close>

definition competitor_fetch ::
  "api \<Rightarrow> string option \<Rightarrow> string \<Rightarrow> int \<Rightarrow> (string + json) io" where
  "competitor_fetch a key q max_results =
     io_bind (do_build a key) (\<lambda>_.
     io_bind (io_call (SearchList q max_results) (search_list a key q max_results))
       (\<lambda>search_response.
     io_bind (io_lift (py_get search_response ''items'' JNull)) (\<lambda>found.
       if \<not> truthy found then io_ret (Inl ''No competing channels found.'')
       else
         io_bind (io_lift (search_ids search_response)) (\<lambda>ids.
         io_bind (io_call (ChannelsList competitor_part ids)
                    (channels_list a key competitor_part ids)) (\<lambda>channels_response.
           io_ret (Inr channels_response))))))"

definition competitor_body ::
  "api \<Rightarrow> competitor_renderer \<Rightarrow> string option \<Rightarrow> string \<Rightarrow> int \<Rightarrow> rat \<Rightarrow> string io" where
  "competitor_body a fmt key q max_results thr =
     io_bind (competitor_fetch a key q max_results) (\<lambda>fetched.
       case fetched of
         Inl msg \<Rightarrow> io_ret msg
       | Inr channels_response \<Rightarrow> io_lift (competitor_report fmt q thr channels_response))"

text \<open>\<^verbatim>\<open>CompetitorSearchTool.run\<close>; \<open>key\<close> is the module's \<^verbatim>\<open>API_KEY\<close>.\<close>

definition competitor_run ::
  "api \<Rightarrow> competitor_renderer \<Rightarrow> string option \<Rightarrow> string \<Rightarrow> int \<Rightarrow> rat
   \<Rightarrow> (exn + string) \<times> request list" where
  "competitor_run a fmt key q max_results thr =
     except_exception ''Error searching for competitors: ''
       (competitor_body a fmt key q max_results thr [])"

section \<open>VideoFetchingTool\<close>

record video =
  title :: json
  video_id :: json
  published_at :: int
  view_count :: int
  like_count :: int
  comment_count :: int

text \<open>
  What the tools take from their libraries: \<^verbatim>\<open>datetime.strptime\<close> with the format
  \<^verbatim>\<open>%Y-%m-%dT%H:%M:%SZ\<close> (a time stamp in seconds, or \<^verbatim>\<open>ValueError\<close>) and the
  clock \<^verbatim>\<open>datetime.utcnow()\<close>, read once per run; for VideoFetchingTool the descending \<^verbatim>\<open>DataFrame.sort_values\<close> of pandas, which runs with the default
  \<^verbatim>\<open>kind='quicksort'\<close> and whose order among equal keys is decided inside the library,
  and the rendering of one row.
\<close>

record datetime_lib =
  strptime :: "string \<Rightarrow> exn + int"
  utcnow :: int

record video_env = datetime_lib +
  sort_values :: "(nat \<times> video \<Rightarrow> int) \<Rightarrow> (nat \<times> video) list \<Rightarrow> (nat \<times> video) list"
  render_row :: "nat \<Rightarrow> video \<Rightarrow> string"

fun py_strptime :: "(string \<Rightarrow> exn + int) \<Rightarrow> json \<Rightarrow> exn + int" where
  "py_strptime f (JStr s) = f s"
| "py_strptime f v =
     Inl (Exn TypeError (''strptime() argument 1 must be str, not '' @ type_name v))"

text \<open>Lines 89 to 100; the \<^verbatim>\<open>url\<close> entry repeats \<^verbatim>\<open>video['id']\<close>.\<close>

definition video_data :: "(string \<Rightarrow> exn + int) \<Rightarrow> json \<Rightarrow> exn + video" where
  "video_data parse v =
     bnd (getitem v ''snippet'') (\<lambda>sn.
     bnd (getitem sn ''title'') (\<lambda>ttl.
     bnd (getitem v ''id'') (\<lambda>vid.
     bnd (getitem sn ''publishedAt'') (\<lambda>p.
     bnd (py_strptime parse p) (\<lambda>published.
     bnd (stat_int v ''viewCount'') (\<lambda>views.
     bnd (stat_int v ''likeCount'') (\<lambda>likes.
     bnd (stat_int v ''commentCount'') (\<lambda>comments.
       Inr \<lparr> title = ttl, video_id = vid, published_at = published,
             view_count = views, like_count = likes, comment_count = comments \<rparr>))))))))"

definition video_ids_of :: "json \<Rightarrow> exn + json list" where
  "video_ids_of items =
     bnd (py_iter items)
       (map_exn (\<lambda>item. bnd (getitem item ''snippet'') (\<lambda>sn.
                         bnd (getitem sn ''resourceId'') (\<lambda>r. getitem r ''videoId''))))"

definition video_part :: string where
  "video_part = ''statistics,snippet''"

text \<open>One turn of the loop of lines 60 to 105: it returns from \<^verbatim>\<open>run\<close>, leaves the loop
  by \<^verbatim>\<open>break\<close>, or goes back to the loop test with the new token.\<close>

datatype page_step = Leave string | Stop "video list" | Again "video list" json

definition page_size :: "int \<Rightarrow> video list \<Rightarrow> int" where
  "page_size max_results videos = min 50 (max_results - int (length videos))"

text \<open>Lines 74 to 82: the identifiers of a page, joined for the batch request.\<close>

definition page_ids :: "json \<Rightarrow> exn + string" where
  "page_ids playlist_response =
     bnd (getitem playlist_response ''items'') (\<lambda>its.
     bnd (video_ids_of its) py_join)"

text \<open>Lines 88 to 101: one record for each element of the batch answer, in its order.\<close>

definition batch_videos :: "(string \<Rightarrow> exn + int) \<Rightarrow> json \<Rightarrow> exn + video list" where
  "batch_videos parse video_response =
     bnd (getitem video_response ''items'') (\<lambda>its.
     bnd (py_iter its) (map_exn (video_data parse)))"

definition fetch_page ::
  "api \<Rightarrow> (string \<Rightarrow> exn + int) \<Rightarrow> string option \<Rightarrow> json \<Rightarrow> int \<Rightarrow> video list \<Rightarrow> json
   \<Rightarrow> page_step io" where
  "fetch_page a parse key playlist max_results videos tok =
     (let m = page_size max_results videos in
      io_bind (io_call (PlaylistItemsList playlist m tok)
                 (playlistItems_list a key playlist m tok)) (\<lambda>playlist_response.
      io_bind (io_lift (py_contains ''items'' playlist_response)) (\<lambda>has_items.
        if \<not> has_items then io_ret (Leave ''No videos found in the uploads playlist.'')
        else
          io_bind (io_lift (page_ids playlist_response)) (\<lambda>ids.
          io_bind (io_call (VideosList video_part ids) (videos_list a key video_part ids))
            (\<lambda>video_response.
          io_bind (io_lift (batch_videos parse video_response)) (\<lambda>new.
          io_bind (io_lift (py_get playlist_response ''nextPageToken'' JNull))
            (\<lambda>next_page_token.
            io_ret (if \<not> truthy next_page_token then Stop (videos @ new)
                    else Again (videos @ new) next_page_token))))))))"

text \<open>The \<^verbatim>\<open>while\<close> loop. It has no bound of its own on the number of turns, so it is
  a partial function: \<open>None\<close> is a run that never leaves the loop. The result is the early
  return value (\<open>Inl\<close>) or the collected videos (\<open>Inr\<close>).\<close>

partial_function (option) fetch_loop ::
  "api \<Rightarrow> (string \<Rightarrow> exn + int) \<Rightarrow> string option \<Rightarrow> json \<Rightarrow> int \<Rightarrow> video list \<Rightarrow> json
   \<Rightarrow> request list \<Rightarrow> ((exn + string + video list) \<times> request list) option" where
  "fetch_loop a parse key playlist max_results videos tok tr =
     (if int (length videos) < max_results
      then (case fetch_page a parse key playlist max_results videos tok tr of
              (Inl e, tr') \<Rightarrow> Some (Inl e, tr')
            | (Inr (Leave s), tr') \<Rightarrow> Some (Inr (Inl s), tr')
            | (Inr (Stop vs), tr') \<Rightarrow> Some (Inr (Inr vs), tr')
            | (Inr (Again vs t), tr') \<Rightarrow> fetch_loop a parse key playlist max_results vs t tr')
      else Some (Inr (Inr videos), tr))"

declare fetch_loop.simps [code]

text \<open>Lines 42 to 54: the channel lookup that yields the uploads playlist, or the early
  return for an unknown channel.\<close>

definition uploads_of :: "json \<Rightarrow> exn + json" where
  "uploads_of channel_response =
     bnd (getitem channel_response ''items'') (\<lambda>its.
     bnd (getitem0 its) (\<lambda>ch.
     bnd (getitem ch ''contentDetails'') (\<lambda>cd.
     bnd (getitem cd ''relatedPlaylists'') (\<lambda>rp. getitem rp ''uploads''))))"

definition video_prelude :: "api \<Rightarrow> string option \<Rightarrow> string \<Rightarrow> (string + json) io" where
  "video_prelude a key chan_id =
     io_bind (do_build a key) (\<lambda>_.
     io_bind (io_call (ChannelsList ''contentDetails'' chan_id)
                (channels_list a key ''contentDetails'' chan_id)) (\<lambda>channel_response.
     io_bind (io_lift (bnd (getitem channel_response ''pageInfo'') (\<lambda>pi.
                       getitem pi ''totalResults''))) (\<lambda>total.
       if py_eq_zero total
       then io_ret (Inl (''Error: Channel not found for ID '' @ quoted chan_id
                         @ ''. Please check the channel ID.''))
       else io_bind (io_lift (uploads_of channel_response)) (\<lambda>uploads.
            io_ret (Inr uploads)))))"

text \<open>Lines 108 to 129. A data frame made from no rows has no columns, and sorting it by a
  column raises \<^verbatim>\<open>KeyError\<close>. Each row keeps the index it had before sorting.\<close>

definition sort_column :: "string \<Rightarrow> string" where
  "sort_column sort_by = (if lower sort_by = ''views'' then ''view_count'' else ''published_at'')"

definition sort_key :: "string \<Rightarrow> nat \<times> video \<Rightarrow> int" where
  "sort_key sort_by =
     (if lower sort_by = ''views'' then (\<lambda>row. view_count (snd row))
      else (\<lambda>row. published_at (snd row)))"

definition video_header :: "string \<Rightarrow> string" where
  "video_header sort_by =
     ''Videos from channel (sorted by '' @ sort_by @ ''):'' @ [CHR 0x0A]
     @ replicate 50 (CHR ''='') @ [CHR 0x0A, CHR 0x0A]"

definition video_report :: "video_env \<Rightarrow> string \<Rightarrow> video list \<Rightarrow> exn + string" where
  "video_report env sort_by videos =
     (if videos = [] then Inl (key_error (sort_column sort_by))
      else
        let df = sort_values env (sort_key sort_by) (enumerate 0 videos)
        in Inr (video_header sort_by
                @ concat (map (\<lambda>row. render_row env (fst row + 1) (snd row)) df)))"

definition video_body ::
  "api \<Rightarrow> video_env \<Rightarrow> string option \<Rightarrow> string \<Rightarrow> int \<Rightarrow> string
   \<Rightarrow> ((exn + string) \<times> request list) option" where
  "video_body a env key chan_id max_results sort_by =
     (case video_prelude a key chan_id [] of
        (Inl e, tr) \<Rightarrow> Some (Inl e, tr)
      | (Inr (Inl msg), tr) \<Rightarrow> Some (Inr msg, tr)
      | (Inr (Inr uploads), tr) \<Rightarrow>
          (case fetch_loop a (strptime env) key uploads max_results [] JNull tr of
             None \<Rightarrow> None
           | Some (Inl e, tr') \<Rightarrow> Some (Inl e, tr')
           | Some (Inr (Inl msg), tr') \<Rightarrow> Some (Inr msg, tr')
           | Some (Inr (Inr videos), tr') \<Rightarrow> Some (video_report env sort_by videos, tr')))"

text \<open>\<^verbatim>\<open>VideoFetchingTool.run\<close>; \<open>None\<close> is a run that does not return.\<close>

definition video_run ::
  "api \<Rightarrow> video_env \<Rightarrow> string option \<Rightarrow> string \<Rightarrow> int \<Rightarrow> string
   \<Rightarrow> ((exn + string) \<times> request list) option" where
  "video_run a env key chan_id max_results sort_by =
     map_option (except_exception ''Error fetching videos: '')
       (video_body a env key chan_id max_results sort_by)"

section \<open>ChannelDemographicsTool\<close>

text \<open>Truth value of an environment variable read with \<^verbatim>\<open>os.getenv\<close>: unset and
  empty are both false.\<close>

definition is_set :: "string option \<Rightarrow> bool" where
  "is_set v = (case v of None \<Rightarrow> False | Some s \<Rightarrow> s \<noteq> [])"

text \<open>The dictionary display of lines 56 to 65.\<close>

definition basic_stats :: "json \<Rightarrow> exn + (string \<times> json) list" where
  "basic_stats channel_data =
     bnd (getitem channel_data ''statistics'') (\<lambda>stats.
     bnd (getitem channel_data ''snippet'') (\<lambda>snippet.
     bnd (getitem snippet ''title'') (\<lambda>name.
     bnd (getitem snippet ''description'') (\<lambda>d.
     bnd (py_truncate200 d) (\<lambda>descr.
     bnd (py_get snippet ''country'' (JStr ''Not specified'')) (\<lambda>ctry.
     bnd (getitem snippet ''publishedAt'') (\<lambda>created.
     bnd (py_get stats ''subscriberCount'' (JStr ''Hidden'')) (\<lambda>subs.
     bnd (getitem stats ''viewCount'') (\<lambda>views.
     bnd (getitem stats ''videoCount'') (\<lambda>vids.
     bnd (py_get snippet ''customUrl'' (JStr ''Not available'')) (\<lambda>url.
       Inr [(''Channel Name'', name), (''Description'', descr), (''Country'', ctry),
            (''Created Date'', created), (''Subscriber Count'', subs),
            (''Total Views'', views), (''Total Videos'', vids),
            (''Custom URL'', url)])))))))))))"

text \<open>Lines 68 to 85: the inner \<^verbatim>\<open>try\<close> turns an exception of the credential
  calls into an entry of the dictionary.\<close>

definition advanced_stats :: "api \<Rightarrow> string option \<Rightarrow> (string \<times> json) list io" where
  "advanced_stats a oauth =
     (case oauth of
        None \<Rightarrow> io_ret []
      | Some creds \<Rightarrow>
          if creds = [] then io_ret []
          else io_call (OAuthBuild creds)
                 (Inr (case oauth_build a creds of
                         None \<Rightarrow>
                           [(''Note'',
                             JStr ''Advanced demographics require YouTube Analytics API access'')]
                       | Some e \<Rightarrow>
                           [(''Error'',
                             JStr (''Could not fetch advanced demographics: '' @ str_exn e))])))"

text \<open>\<^verbatim>\<open>f"{key}: {value}\n"\<close>: a string is printed as it is, the printed form of any
  other value is a parameter.\<close>

definition py_str :: "(json \<Rightarrow> string) \<Rightarrow> json \<Rightarrow> string" where
  "py_str repr v = (case v of JStr s \<Rightarrow> s | _ \<Rightarrow> repr v)"

definition render_stats :: "(json \<Rightarrow> string) \<Rightarrow> (string \<times> json) list \<Rightarrow> string" where
  "render_stats repr kvs =
     concat (map (\<lambda>kv. fst kv @ '': '' @ py_str repr (snd kv) @ [CHR 0x0A]) kvs)"

definition demographics_output ::
  "(json \<Rightarrow> string) \<Rightarrow> (string \<times> json) list \<Rightarrow> (string \<times> json) list \<Rightarrow> string" where
  "demographics_output repr basic advanced =
     ''Channel Demographics Report'' @ [CHR 0x0A]
     @ ''========================'' @ [CHR 0x0A, CHR 0x0A]
     @ ''Basic Statistics:'' @ [CHR 0x0A]
     @ ''----------------'' @ [CHR 0x0A]
     @ render_stats repr basic
     @ (if advanced \<noteq> []
        then [CHR 0x0A] @ ''Advanced Demographics:'' @ [CHR 0x0A]
             @ ''---------------------'' @ [CHR 0x0A] @ render_stats repr advanced
        else [])"

definition demographics_part :: string where
  "demographics_part = ''statistics,snippet,contentDetails''"

definition demographics_body ::
  "api \<Rightarrow> (json \<Rightarrow> string) \<Rightarrow> string option \<Rightarrow> string option \<Rightarrow> string \<Rightarrow> string io" where
  "demographics_body a repr key oauth chan_id =
     (if \<not> is_set key then io_ret ''Error: YouTube API key is not set.''
      else
        io_bind (do_build a key) (\<lambda>_.
        io_bind (io_call (ChannelsList demographics_part chan_id)
                   (channels_list a key demographics_part chan_id)) (\<lambda>channel_response.
        io_bind (io_lift (py_contains ''items'' channel_response)) (\<lambda>has_items.
        io_bind (io_lift (if \<not> has_items then Inr False
                          else bnd (getitem channel_response ''items'') (\<lambda>its.
                               Inr (truthy its)))) (\<lambda>found.
          if \<not> found then io_ret ''Channel not found or invalid channel ID.''
          else
            io_bind (io_lift (bnd (getitem channel_response ''items'') getitem0))
              (\<lambda>channel_data.
            io_bind (io_lift (basic_stats channel_data)) (\<lambda>basic.
            io_bind (advanced_stats a oauth) (\<lambda>advanced.
              io_ret (demographics_output repr basic advanced)))))))))"

text \<open>\<^verbatim>\<open>ChannelDemographicsTool.run\<close>; \<open>key\<close> and \<open>oauth\<close> are the module's
  \<^verbatim>\<open>API_KEY\<close> and \<^verbatim>\<open>OAUTH_CREDENTIALS\<close>.\<close>

definition demographics_run ::
  "api \<Rightarrow> (json \<Rightarrow> string) \<Rightarrow> string option \<Rightarrow> string option \<Rightarrow> string
   \<Rightarrow> (exn + string) \<times> request list" where
  "demographics_run a repr key oauth chan_id =
     except_exception ''Error fetching channel demographics: ''
       (demographics_body a repr key oauth chan_id [])"

section \<open>VideoPerformanceAnalyzer\<close>

subsection \<open>The duration, lines 49 to 59\<close>

text \<open>\<^verbatim>\<open>s.replace('PT', '')\<close> and \<^verbatim>\<open>s.split(sep)\<close> for a one-character
  separator.\<close>

fun replace_PT :: "string \<Rightarrow> string" where
  "replace_PT [] = []"
| "replace_PT [c] = [c]"
| "replace_PT (c # d # cs) =
     (if c = CHR ''P'' \<and> d = CHR ''T'' then replace_PT cs else c # replace_PT (d # cs))"

fun split_on :: "char \<Rightarrow> string \<Rightarrow> string list" where
  "split_on sep [] = [[]]"
| "split_on sep (c # cs) =
     (if c = sep then [] # split_on sep cs
      else (case split_on sep cs of [] \<Rightarrow> [[c]] | p # ps \<Rightarrow> (c # p) # ps))"

definition int_str :: "string \<Rightarrow> exn + int" where
  "int_str s = py_int (JStr s)"

text \<open>\<^verbatim>\<open>if sep in d: n = int(d.split(sep)[0]); d = d.split(sep)[1]\<close>: the number read and
  the rest of the string.\<close>

definition take_unit :: "char \<Rightarrow> string \<Rightarrow> exn + int \<times> string" where
  "take_unit sep d =
     (if sep \<in> set d
      then (case split_on sep d of
              p0 # p1 # _ \<Rightarrow> bnd (int_str p0) (\<lambda>n. Inr (n, p1))
            | _ \<Rightarrow> Inl (Exn IndexError ''list index out of range''))
      else Inr (0, d))"

definition parse_hms :: "string \<Rightarrow> exn + int \<times> int \<times> int" where
  "parse_hms d0 =
     bnd (take_unit (CHR ''H'') d0) (\<lambda>(h, d1).
     bnd (take_unit (CHR ''M'') d1) (\<lambda>(m, d2).
     bnd (if CHR ''S'' \<in> set d2
          then (case split_on (CHR ''S'') d2 of
                  p0 # _ \<Rightarrow> int_str p0
                | [] \<Rightarrow> Inl (Exn IndexError ''list index out of range''))
          else Inr 0) (\<lambda>s.
       Inr (h, m, s))))"

fun parse_duration :: "json \<Rightarrow> exn + int \<times> int \<times> int" where
  "parse_duration (JStr s) = parse_hms (replace_PT s)"
| "parse_duration v = Inl (no_attribute v ''replace'')"

subsection \<open>The metrics of the video, lines 46 to 95\<close>

record metrics =
  video_title :: json
  channel_title :: json
  published :: int
  hours :: int
  minutes :: int
  seconds :: int
  views :: int
  likes :: int
  comments :: int
  views_per_day :: rat
  engagement_rate :: rat

text \<open>\<^verbatim>\<open>(datetime.utcnow() - t).days\<close> on time stamps in seconds.\<close>

definition days_since :: "int \<Rightarrow> int \<Rightarrow> int" where
  "days_since now t = (now - t) div 86400"

definition engagement :: "int \<Rightarrow> int \<Rightarrow> int \<Rightarrow> rat" where
  "engagement n_likes n_comments n_views =
     (if n_views > 0 then of_int (n_likes + n_comments) / of_int n_views else 0)"

definition per_day :: "int \<Rightarrow> int \<Rightarrow> rat" where
  "per_day n_views days = of_int n_views / of_int (max days 1)"

definition video_metrics :: "datetime_lib \<Rightarrow> json \<Rightarrow> exn + metrics" where
  "video_metrics lib v =
     bnd (getitem v ''contentDetails'') (\<lambda>cd.
     bnd (getitem cd ''duration'') (\<lambda>dur.
     bnd (parse_duration dur) (\<lambda>(h, m, s).
     bnd (stat_int v ''viewCount'') (\<lambda>n_views.
     bnd (stat_int v ''likeCount'') (\<lambda>n_likes.
     bnd (stat_int v ''commentCount'') (\<lambda>n_comments.
     bnd (getitem v ''snippet'') (\<lambda>sn.
     bnd (getitem sn ''publishedAt'') (\<lambda>p.
     bnd (py_strptime (strptime lib) p) (\<lambda>t.
     bnd (getitem sn ''title'') (\<lambda>ttl.
     bnd (getitem sn ''channelTitle'') (\<lambda>chn.
       Inr \<lparr> video_title = ttl, channel_title = chn, published = t,
             hours = h, minutes = m, seconds = s,
             views = n_views, likes = n_likes, comments = n_comments,
             views_per_day = per_day n_views (days_since (utcnow lib) t),
             engagement_rate = engagement n_likes n_comments n_views \<rparr>)))))))))))"

subsection \<open>The comments, lines 106 to 140\<close>

record comment =
  comment_text :: json
  comment_likes :: json
  comment_author :: json
  comment_published_at :: int

definition comment_of :: "(string \<Rightarrow> exn + int) \<Rightarrow> json \<Rightarrow> exn + comment" where
  "comment_of parse item =
     bnd (getitem item ''snippet'') (\<lambda>sn.
     bnd (getitem sn ''topLevelComment'') (\<lambda>top.
     bnd (getitem top ''snippet'') (\<lambda>c.
     bnd (getitem c ''textDisplay'') (\<lambda>txt.
     bnd (getitem c ''likeCount'') (\<lambda>lk.
     bnd (getitem c ''authorDisplayName'') (\<lambda>au.
     bnd (getitem c ''publishedAt'') (\<lambda>p.
     bnd (py_strptime parse p) (\<lambda>t.
       Inr \<lparr> comment_text = txt, comment_likes = lk, comment_author = au,
             comment_published_at = t \<rparr>))))))))"

text \<open>
  \<^verbatim>\<open>comment_data.sort(key=lambda x: x['likes'], reverse=True)\<close>: the key is the raw
  \<^verbatim>\<open>likeCount\<close>. Numbers compare with numbers and strings with strings; a list of two
  or more comments whose keys are of other or of mixed types raises \<^verbatim>\<open>TypeError\<close> at
  the first comparison across types (keys that are lists or dictionaries are taken to be
  incomparable).
\<close>

fun is_number :: "json \<Rightarrow> bool" where
  "is_number (JInt n) = True"
| "is_number (JBool b) = True"
| "is_number v = False"

fun int_value :: "json \<Rightarrow> int" where
  "int_value (JInt n) = n"
| "int_value (JBool b) = (if b then 1 else 0)"
| "int_value v = 0"

fun is_str :: "json \<Rightarrow> bool" where
  "is_str (JStr s) = True"
| "is_str v = False"

fun str_value :: "json \<Rightarrow> string" where
  "str_value (JStr s) = s"
| "str_value v = []"

definition sort_comments :: "comment list \<Rightarrow> exn + comment list" where
  "sort_comments cs =
     (if length cs \<le> 1 then Inr cs
      else if list_all (\<lambda>c. is_number (comment_likes c)) cs
      then Inr (ranker (\<lambda>c. int_value (comment_likes c)) cs)
      else if list_all (\<lambda>c. is_str (comment_likes c)) cs
      then Inr (ranker (\<lambda>c. str_value (comment_likes c)) cs)
      else Inl (Exn TypeError (quoted ''<'' @ '' not supported between instances'')))"

text \<open>Line 136: \<^verbatim>\<open>np.mean([...]) if recent_comments else 0\<close>. The mean of numbers is
  kept exact; \<^verbatim>\<open>np.mean\<close> raises on keys that are not numbers.\<close>

fun number_of :: "json \<Rightarrow> exn + int" where
  "number_of (JInt n) = Inr n"
| "number_of (JBool b) = Inr (if b then 1 else 0)"
| "number_of v = Inl (Exn TypeError ''cannot perform reduce with flexible type'')"

definition avg_likes_per_comment :: "comment list \<Rightarrow> exn + rat" where
  "avg_likes_per_comment recent_comments =
     (if recent_comments = [] then Inr 0
      else bnd (map_exn (\<lambda>c. number_of (comment_likes c)) recent_comments) (\<lambda>ns.
           Inr (of_int (sum_list ns) / of_nat (length ns))))"

record analyzer_env = datetime_lib +
  render_overview :: "metrics \<Rightarrow> string"
  render_comment :: "nat \<Rightarrow> comment \<Rightarrow> exn + string"
  render_engagement :: "rat \<Rightarrow> nat \<Rightarrow> string"

definition recent :: "int \<Rightarrow> comment list \<Rightarrow> comment list" where
  "recent now cs = filter (\<lambda>c. days_since now (comment_published_at c) \<le> 30) cs"

definition comments_section :: "analyzer_env \<Rightarrow> json \<Rightarrow> exn + string" where
  "comments_section env comments_response =
     bnd (getitem comments_response ''items'') (\<lambda>its.
     bnd (py_iter its) (\<lambda>items.
     bnd (map_exn (comment_of (strptime env)) items) (\<lambda>unsorted.
     bnd (sort_comments unsorted) (\<lambda>comment_data.
     bnd (render_entries (render_comment env) 1 (take 5 comment_data)) (\<lambda>top_comments.
       let recent_comments = recent (utcnow env) comment_data in
       bnd (avg_likes_per_comment recent_comments) (\<lambda>avg.
         Inr (''Top Comments Analysis:'' @ [CHR 0x0A] @ top_comments
              @ render_engagement env avg (length recent_comments))))))))"

definition analyzer_part :: string where
  "analyzer_part = ''snippet,statistics,contentDetails''"

definition analyzer_body ::
  "api \<Rightarrow> analyzer_env \<Rightarrow> string option \<Rightarrow> string \<Rightarrow> bool \<Rightarrow> string io" where
  "analyzer_body a env key vid include_comments =
     io_bind (do_build a key) (\<lambda>_.
     io_bind (io_call (VideosList analyzer_part vid) (videos_list a key analyzer_part vid))
       (\<lambda>video_response.
     io_bind (io_lift (getitem video_response ''items'')) (\<lambda>its.
       if \<not> truthy its then io_ret ''Video not found.''
       else
         io_bind (io_lift (bnd (getitem0 its) (video_metrics (datetime_lib.truncate env))))
           (\<lambda>m.
           let output = render_overview env m in
           if include_comments \<and> comments m > 0
           then
             io_bind (io_call (CommentThreadsList vid) (commentThreads_list a key vid))
               (\<lambda>comments_response.
               io_lift (bnd (py_get comments_response ''items'' JNull) (\<lambda>got.
                 if truthy got
                 then bnd (comments_section env comments_response) (\<lambda>s. Inr (output @ s))
                 else Inr output)))
           else io_ret output))))"

text \<open>\<^verbatim>\<open>VideoPerformanceAnalyzer.run\<close>.\<close>

definition analyzer_run ::
  "api \<Rightarrow> analyzer_env \<Rightarrow> string option \<Rightarrow> string \<Rightarrow> bool
   \<Rightarrow> (exn + string) \<times> request list" where
  "analyzer_run a env key vid include_comments =
     except_exception ''Error analyzing video performance: ''
       (analyzer_body a env key vid include_comments [])"

section \<open>The Scorer as the specification words it\<close>

text \<open>
  The specification's scoring policy, word for word: each term is looked for in the
  concatenation of the keyword field and the description field (both lowercased, as the
  tool holds them).
\<close>

definition spec_relevance :: "string \<Rightarrow> string \<Rightarrow> string \<Rightarrow> rat" where
  "spec_relevance q keywords descr =
     (let terms = split (lower q)
      in of_nat (length (filter (\<lambda>t. py_in_str t (keywords @ descr)) terms))
         / of_nat (length terms))"

section \<open>What is asked of the provider, and what is assumed of it\<close>

text \<open>The page requests of a trace: the \<^verbatim>\<open>maxResults\<close> and the \<^verbatim>\<open>pageToken\<close>
  of each, in order.\<close>

fun page_requests :: "request list \<Rightarrow> (int \<times> json) list" where
  "page_requests [] = []"
| "page_requests (PlaylistItemsList pl m tok # rs) = (m, tok) # page_requests rs"
| "page_requests (r # rs) = page_requests rs"


text \<open>Every page that is followed by a further request has added at least \<open>p\<close> records, or
  as many as were asked for when fewer than \<open>p\<close> were asked for.\<close>

definition yields_at_least ::
  "api \<Rightarrow> (string \<Rightarrow> exn + int) \<Rightarrow> string option \<Rightarrow> json \<Rightarrow> int \<Rightarrow> int \<Rightarrow> bool" where
  "yields_at_least a parse key playlist max_results p \<longleftrightarrow>
     (\<forall>videos tok tr vs t tr'.
        fetch_page a parse key playlist max_results videos tok tr = (Inr (Again vs t), tr')
        \<longrightarrow> int (length videos) + min p (page_size max_results videos) \<le> int (length vs))"




section \<open>Sample provider answers\<close>

definition mk_channel :: "string \<Rightarrow> string \<Rightarrow> string \<Rightarrow> (string \<times> json) list \<Rightarrow> json" where
  "mk_channel cid kw descr stats =
     JDict [(''id'', JStr cid),
            (''snippet'', JDict [(''title'', JStr cid), (''description'', JStr descr),
                                 (''publishedAt'', JStr ''2020-01-01T00:00:00Z'')]),
            (''statistics'', JDict stats),
            (''brandingSettings'', JDict [(''channel'', JDict [(''keywords'', JStr kw)])])]"

definition search_answer :: "string list \<Rightarrow> json" where
  "search_answer ids =
     JDict [(''items'',
             JList (map (\<lambda>i. JDict [(''snippet'', JDict [(''channelId'', JStr i)])]) ids))]"

definition items_answer :: "json list \<Rightarrow> json" where
  "items_answer xs = JDict [(''items'', JList xs)]"

text \<open>A provider on which every request fails; the samples override single operations.\<close>

definition down_api :: api where
  "down_api =
     \<lparr> build = (\<lambda>key. None),
       search_list = (\<lambda>key q n. Inl (Exn HttpError ''service unavailable'')),
       channels_list = (\<lambda>key part ids. Inl (Exn HttpError ''service unavailable'')),
       playlistItems_list = (\<lambda>key pl n tok. Inl (Exn HttpError ''service unavailable'')),
       videos_list = (\<lambda>key part ids. Inl (Exn HttpError ''service unavailable'')),
       commentThreads_list = (\<lambda>key vid. Inl (Exn HttpError ''service unavailable'')),
       oauth_build = (\<lambda>creds. None) \<rparr>"

definition plain_renderer :: competitor_renderer where
  "plain_renderer =
     \<lparr> render_entry = (\<lambda>i c. Inr (str_value (channel_name c) @ [CHR 0x0A])),
       render_summary = (\<lambda>subs views n. ''Summary'') \<rparr>"

text \<open>One channel about technology, found by the search.\<close>

definition tech_channel :: json where
  "tech_channel =
     mk_channel ''UC1'' ''tech gadgets'' ''Weekly reviews''
       [(''subscriberCount'', JStr ''1200''), (''videoCount'', JStr ''40''),
        (''viewCount'', JStr ''90000'')]"

definition tech_api :: api where
  "tech_api =
     down_api \<lparr> search_list := (\<lambda>key q n. Inr (search_answer [''UC1''])),
                channels_list := (\<lambda>key part ids. Inr (items_answer [tech_channel])) \<rparr>"

text \<open>A channel whose two text fields are \<open>ab\<close> and \<open>cd\<close>.\<close>

definition abcd_channel :: json where
  "abcd_channel = mk_channel ''UC2'' ''ab'' ''cd'' []"







definition plain_video_env :: video_env where
  "plain_video_env =
     \<lparr> strptime = (\<lambda>s. Inr 0), utcnow = 0,
       sort_values = (\<lambda>k rows. ranker k rows),
       render_row = (\<lambda>i v. str_value (title v) @ [CHR 0x0A]) \<rparr>"


text \<open>Answers for VideoFetchingTool: a channel with the uploads playlist \<open>UU1\<close>, a page,
  and a video.\<close>

definition uploads_answer :: json where
  "uploads_answer =
     JDict [(''pageInfo'', JDict [(''totalResults'', JInt 1)]),
            (''items'', JList [JDict [(''contentDetails'',
               JDict [(''relatedPlaylists'', JDict [(''uploads'', JStr ''UU1'')])])]])]"

definition playlist_item :: "string \<Rightarrow> json" where
  "playlist_item vid = JDict [(''snippet'', JDict [(''resourceId'', JDict [(''videoId'', JStr vid)])])]"

definition page_answer :: "json list \<Rightarrow> json \<Rightarrow> json" where
  "page_answer its tok = JDict [(''items'', JList its), (''nextPageToken'', tok)]"

definition mk_video :: "string \<Rightarrow> string \<Rightarrow> json" where
  "mk_video vid n_views =
     JDict [(''id'', JStr vid),
            (''snippet'', JDict [(''title'', JStr vid),
                                 (''publishedAt'', JStr ''2020-01-01T00:00:00Z'')]),
            (''statistics'', JDict [(''viewCount'', JStr n_views)])]"

text \<open>A provider that serves one video on every page and always has a further page.\<close>

definition paged_api :: api where
  "paged_api =
     down_api \<lparr> search_list := (\<lambda>key q n.
                  Inr (search_answer (if 1 \<le> n then [''UC1''] else []))),
                channels_list := (\<lambda>key part ids.
                  if part = ''contentDetails'' then Inr uploads_answer
                  else Inr (items_answer (if ids = [] then [] else [tech_channel]))),
                playlistItems_list := (\<lambda>key pl m tok.
                  Inr (page_answer (if 1 \<le> m then [playlist_item ''v1''] else [])
                         (JStr ''more''))),
                videos_list := (\<lambda>key part ids.
                  Inr (items_answer (if ids = [] then [] else [mk_video ''v1'' ''10'']))) \<rparr>"




text \<open>A provider whose pages always have a further page, while the batch lookup finds none
  of their videos.\<close>

definition endless_api :: api where
  "endless_api =
     down_api \<lparr> channels_list := (\<lambda>key part ids. Inr uploads_answer),
                playlistItems_list := (\<lambda>key pl m tok.
                  Inr (page_answer [playlist_item ''v1''] (JStr ''more''))),
                videos_list := (\<lambda>key part ids. Inr (items_answer [])) \<rparr>"



section \<open>Properties of the strings and of the Ranker\<close>

lemma py_in_str_sublist: "py_in_str t s \<longleftrightarrow> sublist t s"
  by (induction s) (auto simp: sublist_Cons_right)

lemma term_hits_count:
  "term_hits terms kw d = length (filter (\<lambda>t. py_in_str t kw \<or> py_in_str t d) terms)"
  by (induction terms) (auto simp: term_hits_def)

lemma split_acc_Nil: "split_acc cur s = [] \<longleftrightarrow> cur = [] \<and> (\<forall>c\<in>set s. is_space c)"
  by (induction cur s rule: split_acc.induct) auto

lemma split_Nil: "split s = [] \<longleftrightarrow> (\<forall>c\<in>set s. is_space c)"
  by (simp add: split_def split_acc_Nil)

lemma split_acc_terms:
  "t \<in> set (split_acc cur s) \<Longrightarrow> (\<forall>c\<in>set cur. \<not> is_space c)
   \<Longrightarrow> t \<noteq> [] \<and> (\<forall>c\<in>set t. \<not> is_space c)"
proof (induction cur s rule: split_acc.induct)
  case (1 cur)
  then show ?case by (simp split: if_splits)
next
  case (2 cur c cs)
  note mem = \<open>t \<in> set (split_acc cur (c # cs))\<close>
  note clean = \<open>\<forall>c\<in>set cur. \<not> is_space c\<close>
  show ?case
  proof (cases "is_space c")
    case True
    note sp = this
    show ?thesis
    proof (cases "cur = []")
      case True
      from mem sp True have "t \<in> set (split_acc [] cs)" by simp
      then show ?thesis using "2.IH"(1)[OF sp True] by simp
    next
      case False
      from mem sp False have "t = cur \<or> t \<in> set (split_acc [] cs)" by simp
      then show ?thesis
      proof
        assume "t = cur" with False clean show ?thesis by simp
      next
        assume "t \<in> set (split_acc [] cs)"
        then show ?thesis using "2.IH"(2)[OF sp False] by simp
      qed
    qed
  next
    case False
    from mem False have "t \<in> set (split_acc (cur @ [c]) cs)" by simp
    moreover from clean False have "\<forall>x\<in>set (cur @ [c]). \<not> is_space x" by simp
    ultimately show ?thesis using "2.IH"(3)[OF False] by blast
  qed
qed

lemma split_terms: "t \<in> set (split s) \<Longrightarrow> t \<noteq> [] \<and> (\<forall>c\<in>set t. \<not> is_space c)"
  using split_acc_terms[of t "[]" s] by (simp add: split_def)









text \<open>Records with equal keys and distinct markers keep their order.\<close>

lemma ranker_ties_example:
  "ranker fst [(1::int, ''a''), (3, ''b''), (1, ''c''), (3, ''d''), (2, ''e'')] =
     [(3, ''b''), (3, ''d''), (2, ''e''), (1, ''a''), (1, ''c'')]"
  by code_simp

section \<open>The Scorer\<close>

lemma channel_relevance_no_terms:
  assumes "channel_fields channel = Inr (kw, d)" and "split (lower q) = []"
  shows "channel_relevance q channel = Inl zero_division"
  using assms by (simp add: channel_relevance_def bnd_def true_div_def)

lemma channel_relevance_terms:
  assumes "channel_fields channel = Inr (kw, d)" and "split (lower q) \<noteq> []"
  shows "channel_relevance q channel =
           Inr (of_nat (term_hits (split (lower q)) kw d) / of_nat (length (split (lower q))))"
  using assms by (simp add: channel_relevance_def bnd_def true_div_def Let_def)

text \<open>
  C1. A query with no term at all (here a single blank) does not get the score 0: the
  division of line 72 raises, the handler of \<^verbatim>\<open>run\<close> catches the exception, and the
  run returns the error string after both requests were made.
\<close>

theorem blank_query_division_by_zero:
  "competitor_run tech_api plain_renderer (Some ''key'') '' '' 5 (1 / 2) =
     (Inr ''Error searching for competitors: division by zero'',
      [Build (Some ''key''), SearchList '' '' 5, ChannelsList competitor_part ''UC1''])"
  by code_simp

text \<open>
  C8. The score as the specification words it, with the terms looked for in the
  concatenation of the two fields, is not the score of the code: for the fields \<open>ab\<close> and
  \<open>cd\<close> the term \<open>bc\<close> occurs in the concatenation and in neither field.
\<close>

theorem relevance_concatenation_counterexample:
  "channel_fields abcd_channel = Inr (''ab'', ''cd'') \<and> split (lower ''bc'') \<noteq> [] \<and>
   channel_relevance ''bc'' abcd_channel \<noteq> Inr (spec_relevance ''bc'' ''ab'' ''cd'')"
  by code_simp

text \<open>
  C8, amended. For a query with at least one term, the score is the number of the query's
  lowercased whitespace-delimited terms that occur as a substring of the lowercased keyword
  field or of the lowercased description field, each field on its own, divided by the
  number of terms.
\<close>

theorem relevance_is_match_ratio:
  assumes "channel_fields channel = Inr (keywords, descr)"
    and "split (lower q) \<noteq> []"
  shows "channel_relevance q channel =
           Inr (of_nat (length (filter (\<lambda>t. sublist t keywords \<or> sublist t descr)
                                  (split (lower q))))
                / of_nat (length (split (lower q))))"
  using channel_relevance_terms[OF assms] by (simp add: term_hits_count py_in_str_sublist)

theorem relevance_is_match_ratio_witness:
  "channel_fields tech_channel = Inr (''tech gadgets'', ''weekly reviews'') \<and>
   split (lower ''Tech Reviews cooking'') \<noteq> [] \<and>
   channel_relevance ''Tech Reviews cooking'' tech_channel = Inr (2 / 3)"
proof -
  have f: "channel_fields tech_channel = Inr (''tech gadgets'', ''weekly reviews'')"
    by code_simp
  have n: "split (lower ''Tech Reviews cooking'') \<noteq> []"
    by code_simp
  have c: "of_nat (length (filter (\<lambda>t. sublist t ''tech gadgets'' \<or> sublist t ''weekly reviews'')
                     (split (lower ''Tech Reviews cooking''))))
           / of_nat (length (split (lower ''Tech Reviews cooking''))) = (2 / 3 :: rat)"
    by code_simp
  have "channel_relevance ''Tech Reviews cooking'' tech_channel = Inr (2 / 3)"
    using relevance_is_match_ratio[OF f n] unfolding c .
  with f n show ?thesis by blast
qed

text \<open>
  C2. When no channel reaches the threshold the final record sequence is empty and the
  Summarizer of CompetitorSearchTool divides by its length: the run returns the error string
  instead of a report with zero averages.
\<close>

theorem no_competitor_division_by_zero:
  "collect_competitors ''cooking'' (1 / 2) [tech_channel] = Inr [] \<and>
   competitor_run tech_api plain_renderer (Some ''key'') ''cooking'' 5 (1 / 2) =
     (Inr ''Error searching for competitors: division by zero'',
      [Build (Some ''key''), SearchList ''cooking'' 5, ChannelsList competitor_part ''UC1''])"
  by code_simp

lemma avg_subs_empty: "avg_subs [] = Inl zero_division"
  by (simp add: avg_subs_def true_div_def)

lemma avg_likes_per_comment_empty: "avg_likes_per_comment [] = Inr 0"
  by (simp add: avg_likes_per_comment_def)


section \<open>Hidden subscriber counts\<close>

lemma bnd_Inr: "bnd m f = Inr y \<longleftrightarrow> (\<exists>x. m = Inr x \<and> f x = Inr y)"
  by (cases m) (simp_all add: bnd_def)








section \<open>The API key\<close>

lemma demographics_no_key:
  assumes "\<not> is_set key"
  shows "demographics_run a repr key oauth chan_id =
           (Inr ''Error: YouTube API key is not set.'', [])"
  using assms
  by (simp add: demographics_run_def demographics_body_def except_exception_def io_ret_def)


section \<open>The pagination loop\<close>



lemma page_requests_append: "page_requests (xs @ ys) = page_requests xs @ page_requests ys"
  by (induction xs rule: page_requests.induct) simp_all

lemma fetch_page_trace:
  assumes "fetch_page a parse key pl N videos tok tr = (r, tr')"
  shows "\<exists>rest. tr' = tr @ PlaylistItemsList pl (page_size N videos) tok # rest \<and>
                page_requests rest = []"
  using assms
  unfolding fetch_page_def Let_def io_bind_def io_call_def io_lift_def io_ret_def
  by (auto split: sum.splits if_splits)



lemma ceil_step:
  fixes p R R' :: int
  assumes "1 \<le> p" and "1 \<le> R" and "R' \<le> R - min p R"
  shows "1 + (max 0 R' + p - 1) div p \<le> (max 0 R + p - 1) div p"
proof (cases "R \<le> p")
  case True
  with assms have "max 0 R' = 0" by simp
  moreover have "(p - 1) div p = 0" using assms(1) by simp
  moreover have "p div p \<le> (max 0 R + p - 1) div p"
    using assms(1,2) by (intro zdiv_mono1) simp_all
  ultimately show ?thesis using assms(1) by simp
next
  case False
  with assms have le: "max 0 R' + p - 1 \<le> R - 1" by simp
  have "(max 0 R' + p - 1) div p \<le> (R - 1) div p"
    using le assms(1) by (intro zdiv_mono1) simp_all
  moreover have "(max 0 R + p - 1) div p = (R - 1) div p + 1"
  proof -
    have e: "max 0 R + p - 1 = (R - 1) + p" using assms(2) by simp
    have "((R - 1) + p) div p = (R - 1) div p + 1" using assms(1) by simp
    then show ?thesis by (simp only: e)
  qed
  ultimately show ?thesis by simp
qed

lemma ceil_one:
  fixes p R :: int
  assumes "1 \<le> p" and "1 \<le> R"
  shows "1 \<le> (max 0 R + p - 1) div p"
proof -
  have "p div p \<le> (max 0 R + p - 1) div p"
    using assms by (intro zdiv_mono1) simp_all
  then show ?thesis using assms(1) by simp
qed

lemma ceil_nonneg:
  fixes p R :: int
  assumes "1 \<le> p"
  shows "0 \<le> (max 0 R + p - 1) div p"
  using assms by (simp add: pos_imp_zdiv_nonneg_iff)

lemma fetch_loop_bounded:
  assumes p: "1 \<le> p" "p \<le> 50"
    and full: "yields_at_least a parse key pl N p"
  shows "\<exists>r new. fetch_loop a parse key pl N videos tok tr = Some (r, tr @ new) \<and>
           int (length (page_requests new))
             \<le> (max 0 (N - int (length videos)) + p - 1) div p"
proof (induction "nat (N - int (length videos))" arbitrary: videos tok tr rule: less_induct)
  case less
  let ?R = "N - int (length videos)"
  show ?case
  proof (cases "int (length videos) < N")
    case False
    then have "fetch_loop a parse key pl N videos tok tr = Some (Inr (Inr videos), tr @ [])"
      by (subst fetch_loop.simps) simp
    moreover have "int (length (page_requests [])) \<le> (max 0 ?R + p - 1) div p"
      using ceil_nonneg[OF p(1)] by simp
    ultimately show ?thesis by blast
  next
    case True
    then have R: "1 \<le> ?R" by simp
    obtain res tr1 where fp: "fetch_page a parse key pl N videos tok tr = (res, tr1)"
      by (cases "fetch_page a parse key pl N videos tok tr")
    from fetch_page_trace[OF fp] obtain rest
      where tr1: "tr1 = tr @ PlaylistItemsList pl (page_size N videos) tok # rest"
        and none: "page_requests rest = []" by blast
    have one: "int (length (page_requests (PlaylistItemsList pl (page_size N videos) tok # rest)))
                 \<le> (max 0 ?R + p - 1) div p"
      using ceil_one[OF p(1) R] none by simp
    show ?thesis
    proof (cases res)
      case (Inl e)
      with fp True have "fetch_loop a parse key pl N videos tok tr = Some (Inl e, tr1)"
        by (subst fetch_loop.simps) simp
      with tr1 one show ?thesis by blast
    next
      case (Inr step)
      show ?thesis
      proof (cases step)
        case (Leave s)
        with fp True Inr
        have "fetch_loop a parse key pl N videos tok tr = Some (Inr (Inl s), tr1)"
          by (subst fetch_loop.simps) simp
        with tr1 one show ?thesis by blast
      next
        case (Stop vs)
        with fp True Inr
        have "fetch_loop a parse key pl N videos tok tr = Some (Inr (Inr vs), tr1)"
          by (subst fetch_loop.simps) simp
        with tr1 one show ?thesis by blast
      next
        case (Again vs t)
        from full fp Inr Again
        have grow: "int (length videos) + min p (page_size N videos) \<le> int (length vs)"
          unfolding yields_at_least_def by blast
        have ps: "min p (page_size N videos) = min p ?R"
          using p by (simp add: page_size_def)
        from grow ps p R have lt: "length videos < length vs" by simp
        with True have "nat (N - int (length vs)) < nat ?R" by simp
        from less(1)[OF this] obtain r new
          where rec: "fetch_loop a parse key pl N vs t tr1 = Some (r, tr1 @ new)"
            and cnt: "int (length (page_requests new))
                        \<le> (max 0 (N - int (length vs)) + p - 1) div p"
          by blast
        have unfold: "fetch_loop a parse key pl N videos tok tr = fetch_loop a parse key pl N vs t tr1"
          using fp Inr Again True by (subst fetch_loop.simps) simp
        have "N - int (length vs) \<le> ?R - min p ?R" using grow ps by simp
        from ceil_step[OF p(1) R this] cnt none
        have "int (length (page_requests
                 (PlaylistItemsList pl (page_size N videos) tok # rest @ new)))
                \<le> (max 0 ?R + p - 1) div p"
          by (simp add: page_requests_append)
        moreover have "fetch_loop a parse key pl N videos tok tr =
                Some (r, tr @ PlaylistItemsList pl (page_size N videos) tok # rest @ new)"
          using unfold rec tr1 by simp
        ultimately show ?thesis by blast
      qed
    qed
  qed
qed





section \<open>Pages, batches and the records they yield\<close>

lemma map_exn_length: "map_exn f xs = Inr ys \<Longrightarrow> length ys = length xs"
  by (induction xs arbitrary: ys) (auto split: sum.splits)

lemma map_exn_results:
  "map_exn f xs = Inr ys \<Longrightarrow> map Inr ys = map f xs"
  by (induction xs arbitrary: ys) (auto split: sum.splits)





lemma batch_videos_Inr:
  assumes "batch_videos parse resp = Inr new"
  shows "\<exists>its ys. getitem resp ''items'' = Inr its \<and> py_iter its = Inr ys \<and>
           map_exn (video_data parse) ys = Inr new"
  using assms unfolding batch_videos_def bnd_Inr by blast


lemma fetch_page_yield:
  assumes "fetch_page a parse key pl N videos tok tr = (Inr step, tr')"
    and "step = Stop vs \<or> step = Again vs t"
  shows "\<exists>resp s resp2 new.
           playlistItems_list a key pl (page_size N videos) tok = Inr resp \<and>
           page_ids resp = Inr s \<and>
           videos_list a key video_part s = Inr resp2 \<and>
           batch_videos parse resp2 = Inr new \<and> vs = videos @ new"
  using assms
  unfolding fetch_page_def Let_def io_bind_def io_call_def io_lift_def io_ret_def
  by (auto split: sum.splits if_splits)







section \<open>Providers that make progress, and one that does not\<close>

lemma paged_page_ids:
  "page_ids (page_answer (if (1::int) \<le> m then [playlist_item ''v1''] else []) (JStr ''more''))
     = Inr (if 1 \<le> m then ''v1'' else [])"
  by (simp add: page_ids_def page_answer_def playlist_item_def video_ids_of_def bnd_def
      py_join_def)

lemma paged_api_yield:
  assumes "p \<le> 1 \<or> N \<le> 1"
  shows "yields_at_least paged_api parse key pl N p"
  unfolding yields_at_least_def
proof (intro allI impI)
  fix videos tok tr vs t tr'
  assume fp: "fetch_page paged_api parse key pl N videos tok tr = (Inr (Again vs t), tr')"
  let ?m = "page_size N videos"
  from fetch_page_yield[OF fp] obtain resp s resp2 new
    where r1: "playlistItems_list paged_api key pl ?m tok = Inr resp"
      and r2: "page_ids resp = Inr s"
      and r3: "videos_list paged_api key video_part s = Inr resp2"
      and r4: "batch_videos parse resp2 = Inr new" and vs: "vs = videos @ new"
    by blast
  from r1 have resp: "resp = page_answer (if 1 \<le> ?m then [playlist_item ''v1''] else []) (JStr ''more'')"
    by (simp add: paged_api_def down_api_def)
  from r2 have s: "s = (if 1 \<le> ?m then ''v1'' else [])"
    unfolding resp paged_page_ids by simp
  from r3 have resp2: "resp2 = items_answer (if s = [] then [] else [mk_video ''v1'' ''10''])"
    by (simp add: paged_api_def down_api_def)
  from batch_videos_Inr[OF r4] obtain its ys
    where "getitem resp2 ''items'' = Inr its" and "py_iter its = Inr ys"
      and m: "map_exn (video_data parse) ys = Inr new" by blast
  then have "ys = (if s = [] then [] else [mk_video ''v1'' ''10''])"
    by (auto simp: resp2 items_answer_def split: if_splits)
  with map_exn_length[OF m] s have len: "int (length new) = (if 1 \<le> ?m then 1 else 0)"
    by (simp split: if_splits)
  have "?m \<le> N" by (simp add: page_size_def)
  with assms have "min p ?m \<le> (if 1 \<le> ?m then 1 else 0)" by auto
  with len vs show "int (length videos) + min p ?m \<le> int (length vs)" by simp
qed

lemma paged_api_progress: "yields_at_least paged_api parse key pl N 1"
  by (rule paged_api_yield) simp

lemma endless_fetch_page:
  "fetch_page endless_api parse key pl N videos tok tr =
     (Inr (Again videos (JStr ''more'')),
      tr @ [PlaylistItemsList pl (page_size N videos) tok, VideosList video_part ''v1''])"
  by (simp add: fetch_page_def Let_def io_bind_def io_call_def io_lift_def io_ret_def
      endless_api_def down_api_def page_answer_def playlist_item_def items_answer_def
      page_ids_def video_ids_of_def batch_videos_def bnd_def py_join_def)

lemma endless_loop_never_returns:
  assumes "fetch_loop a parse key pl N videos tok tr = Some y"
    and "a = endless_api" and "videos = []" and "0 < N"
  shows False
  using assms(2-)
proof (induction a parse key pl N videos tok tr y rule: fetch_loop.raw_induct)
  case (1 loop a parse key pl N videos tok tr y)
  from 1(2) 1(3) 1(4) 1(5) endless_fetch_page[of parse key pl N videos tok tr]
  have "loop a parse key pl N videos (JStr ''more'')
          (tr @ [PlaylistItemsList pl (page_size N videos) tok, VideosList video_part ''v1''])
        = Some y"
    by simp
  from 1(1)[OF this 1(3) 1(4) 1(5)] show ?case .
qed fact

lemma endless_loop_None:
  assumes "0 < N"
  shows "fetch_loop endless_api parse key pl N [] tok tr = None"
proof (cases "fetch_loop endless_api parse key pl N [] tok tr")
  case None
  then show ?thesis .
next
  case (Some y)
  from endless_loop_never_returns[OF Some refl refl assms] show ?thesis ..
qed

lemma except_exception_Inr: "\<exists>s tr. except_exception label out = (Inr s, tr)"
proof (cases out)
  case (Pair r tr)
  then show ?thesis by (cases r) (simp_all add: except_exception_def)
qed

lemma video_run_no_exception:
  assumes "video_run a venv key cid n sort_by = Some out"
  shows "\<exists>s tr. out = (Inr s, tr)"
proof -
  from assms obtain b where "out = except_exception ''Error fetching videos: '' b"
    unfolding video_run_def by auto
  with except_exception_Inr[of "''Error fetching videos: ''" b] show ?thesis by simp
qed

lemma video_run_returns:
  assumes "\<forall>pl. yields_at_least a (strptime venv) key pl n 1"
  shows "\<exists>s tr. video_run a venv key cid n sort_by = Some (Inr s, tr)"
proof -
  have "\<exists>out. video_body a venv key cid n sort_by = Some out"
  proof (cases "video_prelude a key cid []")
    case (Pair res tr)
    show ?thesis
    proof (cases res)
      case (Inl e)
      with Pair show ?thesis by (simp add: video_body_def)
    next
      case (Inr early)
      show ?thesis
      proof (cases early)
        case (Inl msg)
        with Pair Inr show ?thesis by (simp add: video_body_def)
      next
        case inr: (Inr uploads)
        from assms have "yields_at_least a (strptime venv) key uploads n 1" by blast
        from fetch_loop_bounded[OF _ _ this, of "[]" JNull tr] obtain r new
          where "fetch_loop a (strptime venv) key uploads n [] JNull tr = Some (r, tr @ new)"
          by auto
        with Pair Inr inr show ?thesis
          by (simp add: video_body_def split: sum.splits)
      qed
    qed
  qed
  then obtain out where "video_body a venv key cid n sort_by = Some out" ..
  then have "video_run a venv key cid n sort_by = Some (except_exception ''Error fetching videos: '' out)"
    by (simp add: video_run_def)
  with except_exception_Inr[of "''Error fetching videos: ''" out] show ?thesis by auto
qed

section \<open>The result bound\<close>









section \<open>Page requests, record order and returning\<close>







text \<open>
  C9. Not every run returns: the loop of VideoFetchingTool goes on while fewer than N
  records are collected and the provider returns a continuation token. With a provider whose
  pages always carry a token while their videos are not found by the batch lookup, the run
  never returns.
\<close>

theorem endless_pagination_counterexample:
  "video_run endless_api plain_video_env (Some ''key'') ''UC1'' 1 ''date'' = None"
proof -
  have pre: "video_prelude endless_api (Some ''key'') ''UC1'' [] =
               (Inr (Inr (JStr ''UU1'')),
                [Build (Some ''key''), ChannelsList ''contentDetails'' ''UC1''])"
    by code_simp
  have "fetch_loop endless_api (strptime plain_video_env) (Some ''key'') (JStr ''UU1'') 1 []
          JNull [Build (Some ''key''), ChannelsList ''contentDetails'' ''UC1''] = None"
    by (rule endless_loop_None) simp
  with pre show ?thesis by (simp add: video_run_def video_body_def)
qed

text \<open>
  C9, amended. No run lets an exception reach its caller: the runs of CompetitorSearchTool,
  ChannelDemographicsTool and VideoPerformanceAnalyzer always return a string; a run of
  VideoFetchingTool that returns, returns a string, and it returns whenever every page that
  is followed by a further request has added at least one record.
\<close>

theorem run_returns_string:
  "(\<exists>s tr. competitor_run a fmt key q n thr = (Inr s, tr)) \<and>
   (\<exists>s tr. demographics_run a repr key oauth cid = (Inr s, tr)) \<and>
   (\<exists>s tr. analyzer_run a aenv key vid inc = (Inr s, tr)) \<and>
   (\<forall>out. video_run a venv key cid m sort_by = Some out \<longrightarrow> (\<exists>s tr. out = (Inr s, tr))) \<and>
   ((\<forall>pl. yields_at_least a (strptime venv) key pl m 1) \<longrightarrow>
      (\<exists>s tr. video_run a venv key cid m sort_by = Some (Inr s, tr)))"
  using except_exception_Inr video_run_no_exception video_run_returns
  unfolding competitor_run_def demographics_run_def analyzer_run_def
  by blast

text \<open>The provider \<open>paged_api\<close> adds one record per page.\<close>

theorem run_returns_string_witness:
  "(\<forall>pl. yields_at_least paged_api (strptime plain_video_env) (Some ''key'') pl 2 1) \<and>
   (\<exists>s tr. video_run paged_api plain_video_env (Some ''key'') ''UC1'' 2 ''views'' =
      Some (Inr s, tr)) \<and>
   (\<exists>s tr. competitor_run paged_api plain_renderer (Some ''key'') ''tech'' 5 (1 / 2) =
      (Inr s, tr))"
proof -
  have h: "\<forall>pl. yields_at_least paged_api (strptime plain_video_env) (Some ''key'') pl 2 1"
    using paged_api_progress by blast
  from run_returns_string[where a = paged_api and fmt = plain_renderer and key = "Some ''key''"
      and q = "''tech''" and n = 5 and thr = "1 / 2" and venv = plain_video_env
      and cid = "''UC1''" and m = 2 and sort_by = "''views''"] h
  show ?thesis by blast
qed

end
